theory Spec2Isabelle
  imports Complex_Main "HOL-Library.Sublist"
begin

section \<open>The log-anomaly detector \<^verbatim>\<open>src/ai_detector.py\<close>\<close>

text \<open>
  The detector polls a log backend, flattens the response into lines, derives a metrics
  dictionary from the lines, scores the metrics with four fixed rules and sends an alert
  datagram when the score reaches a threshold. The development follows the order of the
  source file: configuration constants, \<^verbatim>\<open>extract_lines\<close>, \<^verbatim>\<open>send_syslog\<close>,
  \<^verbatim>\<open>compute_metrics\<close>, \<^verbatim>\<open>simple_score\<close> and the loop of \<^verbatim>\<open>main\<close>.

  Python floats are modelled by \<^typ>\<open>real\<close>: the rates, the throughput average and the
  score are exact numbers here, and rounding of binary floating point is not modelled.
\<close>

subsection \<open>Configuration constants\<close>

definition WINDOW_MINUTES :: nat where
  "WINDOW_MINUTES = 5"

definition SCORE_THRESHOLD :: real where
  "SCORE_THRESHOLD = 0.10"

subsection \<open>Exceptions\<close>

text \<open>
  The exception classes the program can meet. A raise is a value \<open>Inl e\<close> of a sum type.
  \<^verbatim>\<open>RequestException\<close> stands for what the HTTP client raises (connection error,
  timeout, bad status, undecodable body), \<^verbatim>\<open>OSError\<close> for what a socket raises.
  \<^verbatim>\<open>KeyboardInterrupt\<close> derives from \<^verbatim>\<open>BaseException\<close> only, so the clause
  \<^verbatim>\<open>except Exception\<close> of the main loop does not catch it.
\<close>

datatype exn =
  AttributeError | TypeError | ValueError | OverflowError | OSError | RequestException
  | KeyboardInterrupt

definition is_Exception :: "exn \<Rightarrow> bool" where
  "is_Exception e = (e \<noteq> KeyboardInterrupt)"

subsection \<open>Decoded JSON values\<close>

text \<open>
  \<^verbatim>\<open>r.json()\<close> returns whatever the response body decodes to: \<^verbatim>\<open>None\<close>, a bool, an
  int, a float (the decoder also accepts \<^verbatim>\<open>NaN\<close> and the infinities), a str, a list or a
  dict. A dict is an association list with distinct keys, in insertion order. Strings are
  ASCII text, one \<^typ>\<open>char\<close> per character.
\<close>

datatype pyfloat = Finite real | PosInf | NegInf | NaN

datatype json =
  JNull | JBool bool | JInt int | JFloat pyfloat | JStr string | JList "json list"
  | JDict "(string \<times> json) list"

text \<open>\<^verbatim>\<open>d.get(key, default)\<close>: only a dict has the method.\<close>

definition dict_get :: "json \<Rightarrow> string \<Rightarrow> json \<Rightarrow> exn + json" where
  "dict_get d key dflt =
     (case d of
        JDict kvs \<Rightarrow> Inr (case map_of kvs key of Some v \<Rightarrow> v | None \<Rightarrow> dflt)
      | _ \<Rightarrow> Inl AttributeError)"

text \<open>
  Iterating a value in a \<^verbatim>\<open>for\<close> statement or an unpacking: a list gives its
  elements, a str its characters, a dict its keys; anything else is not iterable.
\<close>

definition py_iter :: "json \<Rightarrow> exn + json list" where
  "py_iter v =
     (case v of
        JList xs \<Rightarrow> Inr xs
      | JStr s \<Rightarrow> Inr (map (\<lambda>c. JStr [c]) s)
      | JDict kvs \<Rightarrow> Inr (map (\<lambda>kv. JStr (fst kv)) kvs)
      | _ \<Rightarrow> Inl TypeError)"

text \<open>The target \<^verbatim>\<open>ts_ns, line\<close> of the inner loop unpacks exactly two items.\<close>

definition unpack2 :: "json \<Rightarrow> exn + (json \<times> json)" where
  "unpack2 v =
     (case py_iter v of
        Inl e \<Rightarrow> Inl e
      | Inr [a, b] \<Rightarrow> Inr (a, b)
      | Inr _ \<Rightarrow> Inl ValueError)"

subsection \<open>The builtin \<^verbatim>\<open>int\<close>\<close>

definition is_digit :: "char \<Rightarrow> bool" where
  "is_digit c = (c \<in> set ''0123456789'')"

definition digit_val :: "char \<Rightarrow> nat" where
  "digit_val c = of_char c - 48"

definition dec_val :: "string \<Rightarrow> nat" where
  "dec_val ds = foldl (\<lambda>n c. 10 * n + digit_val c) 0 ds"

text \<open>The whitespace \<^verbatim>\<open>int\<close> skips around an ASCII str: codes 9 to 13 and the space.\<close>

definition is_space :: "char \<Rightarrow> bool" where
  "is_space c = (let n = (of_char c :: nat) in (9 \<le> n \<and> n \<le> 13) \<or> n = 32)"

definition strip :: "string \<Rightarrow> string" where
  "strip s = rev (dropWhile is_space (rev (dropWhile is_space s)))"

text \<open>Digits of an integer literal: non-empty groups of digits joined by single underscores.\<close>

fun int_digits :: "string \<Rightarrow> bool" where
  "int_digits [] = False"
| "int_digits [c] = is_digit c"
| "int_digits (c # d # cs) =
     (is_digit c \<and> (if d = CHR ''_'' then int_digits cs else int_digits (d # cs)))"

text \<open>
  \<^verbatim>\<open>int(s)\<close> for a str, base 10: surrounding whitespace, an optional sign, then the
  digits. CPython (3.11 and later, default settings) refuses a literal of more than 4300
  digits, underscores not counted, with the same \<^verbatim>\<open>ValueError\<close>.
\<close>

definition MAX_STR_DIGITS :: nat where
  "MAX_STR_DIGITS = 4300"

definition py_int_str :: "string \<Rightarrow> exn + int" where
  "py_int_str s =
     (let t = strip s;
          neg = (case t of c # _ \<Rightarrow> c = CHR ''-'' | [] \<Rightarrow> False);
          body = (case t of c # r \<Rightarrow> if c = CHR ''-'' \<or> c = CHR ''+'' then r else t | [] \<Rightarrow> t);
          digits = filter (\<lambda>c. c \<noteq> CHR ''_'') body
      in if int_digits body \<and> length digits \<le> MAX_STR_DIGITS
         then Inr ((if neg then - 1 else 1) * int (dec_val digits))
         else Inl ValueError)"

text \<open>\<^verbatim>\<open>int(x)\<close> for a float truncates towards zero.\<close>

definition py_int_float :: "pyfloat \<Rightarrow> exn + int" where
  "py_int_float f =
     (case f of
        Finite r \<Rightarrow> Inr (if 0 \<le> r then \<lfloor>r\<rfloor> else \<lceil>r\<rceil>)
      | NaN \<Rightarrow> Inl ValueError
      | _ \<Rightarrow> Inl OverflowError)"

definition py_int :: "json \<Rightarrow> exn + int" where
  "py_int v =
     (case v of
        JBool b \<Rightarrow> Inr (if b then 1 else 0)
      | JInt i \<Rightarrow> Inr i
      | JFloat f \<Rightarrow> py_int_float f
      | JStr s \<Rightarrow> py_int_str s
      | _ \<Rightarrow> Inl TypeError)"

subsection \<open>\<^verbatim>\<open>extract_lines\<close>\<close>

text \<open>
  The inner loop over the entries of one stream's \<^verbatim>\<open>values\<close>, and the outer loop over
  the streams; \<open>out\<close> is the list being appended to. A line is kept as the value it is:
  nothing here checks that it is a str.
\<close>

fun extract_values :: "json list \<Rightarrow> (int \<times> json) list \<Rightarrow> exn + (int \<times> json) list" where
  "extract_values [] out = Inr out"
| "extract_values (entry # rest) out =
     (case unpack2 entry of
        Inl e \<Rightarrow> Inl e
      | Inr (ts_ns, line) \<Rightarrow>
          (case py_int ts_ns of
             Inl e \<Rightarrow> Inl e
           | Inr t \<Rightarrow> extract_values rest (out @ [(t, line)])))"

fun extract_streams :: "json list \<Rightarrow> (int \<times> json) list \<Rightarrow> exn + (int \<times> json) list" where
  "extract_streams [] out = Inr out"
| "extract_streams (stream # rest) out =
     (case dict_get stream ''values'' (JList []) of
        Inl e \<Rightarrow> Inl e
      | Inr vs \<Rightarrow>
          (case py_iter vs of
             Inl e \<Rightarrow> Inl e
           | Inr entries \<Rightarrow>
               (case extract_values entries out of
                  Inl e \<Rightarrow> Inl e
                | Inr out' \<Rightarrow> extract_streams rest out')))"

definition extract_lines :: "json \<Rightarrow> exn + (int \<times> json) list" where
  "extract_lines loki_json =
     (case dict_get loki_json ''data'' (JDict []) of
        Inl e \<Rightarrow> Inl e
      | Inr data \<Rightarrow>
          (case dict_get data ''result'' (JList []) of
             Inl e \<Rightarrow> Inl e
           | Inr result \<Rightarrow>
               (case py_iter result of
                  Inl e \<Rightarrow> Inl e
                | Inr streams \<Rightarrow> extract_streams streams [])))"

subsection \<open>String operations\<close>

text \<open>
  \<^verbatim>\<open>s.lower()\<close> maps the letters A to Z to a to z. (Two characters outside ASCII, the
  Kelvin sign and the dotted capital I, lower-case to strings containing an ASCII letter
  in Python; text is ASCII here.)
\<close>

definition lower_char :: "char \<Rightarrow> char" where
  "lower_char c =
     (case map_of (zip ''ABCDEFGHIJKLMNOPQRSTUVWXYZ'' ''abcdefghijklmnopqrstuvwxyz'') c of
        Some d \<Rightarrow> d
      | None \<Rightarrow> c)"

definition lower :: "string \<Rightarrow> string" where
  "lower s = map lower_char s"

text \<open>\<^verbatim>\<open>sub in s\<close>: \<open>sub\<close> occurs in \<open>s\<close> as a contiguous substring.\<close>

fun str_in :: "string \<Rightarrow> string \<Rightarrow> bool" where
  "str_in sub [] = (sub = [])"
| "str_in sub (c # cs) = (prefix sub (c # cs) \<or> str_in sub cs)"

subsection \<open>The regular expression \<^verbatim>\<open>RE_THROUGHPUT\<close>\<close>

text \<open>
  The pattern \<^verbatim>\<open>Throughput=([0-9]*\.?[0-9]+)\<close> is a sequence of items, each an atom (a
  literal character or the class \<^verbatim>\<open>[0-9]\<close>) under a quantifier (exactly once,
  \<^verbatim>\<open>?\<close>, \<^verbatim>\<open>*\<close>, \<^verbatim>\<open>+\<close>). All quantifiers are greedy.
\<close>

datatype atom = Chr char | Digit

datatype quant = One | Opt | Star | Plus

type_synonym regex = "(atom \<times> quant) list"

fun atom_ok :: "atom \<Rightarrow> char \<Rightarrow> bool" where
  "atom_ok (Chr a) c = (a = c)"
| "atom_ok Digit c = is_digit c"

text \<open>
  \<open>re_match p s\<close> matches the pattern at the start of \<open>s\<close> the way a backtracking engine
  does: a greedy quantifier first takes the character and goes on, and gives it back only
  when the rest of the pattern fails. The result is the matched text.
\<close>

fun re_match :: "regex \<Rightarrow> string \<Rightarrow> string option" where
  "re_match [] s = Some []"
| "re_match ((a, q) # p) [] = (if q = Opt \<or> q = Star then re_match p [] else None)"
| "re_match ((a, One) # p) (c # cs) =
     (if atom_ok a c then map_option (Cons c) (re_match p cs) else None)"
| "re_match ((a, Opt) # p) (c # cs) =
     (if atom_ok a c
      then (case re_match p cs of Some r \<Rightarrow> Some (c # r) | None \<Rightarrow> re_match p (c # cs))
      else re_match p (c # cs))"
| "re_match ((a, Star) # p) (c # cs) =
     (if atom_ok a c
      then (case re_match ((a, Star) # p) cs of
              Some r \<Rightarrow> Some (c # r)
            | None \<Rightarrow> re_match p (c # cs))
      else re_match p (c # cs))"
| "re_match ((a, Plus) # p) (c # cs) =
     (if atom_ok a c then map_option (Cons c) (re_match ((a, Star) # p) cs) else None)"

text \<open>\<^verbatim>\<open>pattern.search(s)\<close>: the match at the leftmost position that has one.\<close>

fun re_search :: "regex \<Rightarrow> string \<Rightarrow> string option" where
  "re_search p [] = re_match p []"
| "re_search p (c # cs) =
     (case re_match p (c # cs) of Some r \<Rightarrow> Some r | None \<Rightarrow> re_search p cs)"

definition re_literal :: "string \<Rightarrow> regex" where
  "re_literal s = map (\<lambda>c. (Chr c, One)) s"

definition re_number :: regex where
  "re_number = [(Digit, Star), (Chr CHR ''.'', Opt), (Digit, Plus)]"

definition RE_THROUGHPUT :: regex where
  "RE_THROUGHPUT = re_literal ''Throughput='' @ re_number"

text \<open>
  \<^verbatim>\<open>m.group(1)\<close>: the parenthesis opens after the eleven literal characters, each of
  which matches one character, and closes at the end of the pattern.
\<close>

definition group1 :: "string \<Rightarrow> string" where
  "group1 matched = drop (length ''Throughput='') matched"

subsection \<open>The builtin \<^verbatim>\<open>float\<close>\<close>

text \<open>
  \<^verbatim>\<open>float(s)\<close> on a string of digits and dots: digits with at most one dot, and at
  least one digit. The program calls it on captured groups only; the other literals
  Python accepts (sign, exponent, underscores, \<^verbatim>\<open>inf\<close>, \<^verbatim>\<open>nan\<close>, surrounding
  whitespace) contain a character that is neither, and are rejected here.
\<close>

definition is_decimal :: "string \<Rightarrow> bool" where
  "is_decimal s =
     (case dropWhile is_digit s of
        [] \<Rightarrow> takeWhile is_digit s \<noteq> []
      | c # fp \<Rightarrow> c = CHR ''.'' \<and> list_all is_digit fp \<and> (takeWhile is_digit s \<noteq> [] \<or> fp \<noteq> []))"

definition decimal_value :: "string \<Rightarrow> real" where
  "decimal_value s =
     (let ip = takeWhile is_digit s; fp = drop 1 (dropWhile is_digit s)
      in real (dec_val ip) + real (dec_val fp) / 10 ^ length fp)"

definition py_float :: "string \<Rightarrow> exn + real" where
  "py_float s = (if is_decimal s then Inr (decimal_value s) else Inl ValueError)"


subsection \<open>The metrics dictionary\<close>

text \<open>
  \<^verbatim>\<open>compute_metrics\<close> returns a dictionary with seven fixed keys; \<^verbatim>\<open>thr_avg\<close> is
  \<^verbatim>\<open>None\<close> or a float.
\<close>

record metrics =
  total :: nat
  log_rate :: real
  security :: nat
  sec_rate :: real
  errors :: nat
  err_rate :: real
  thr_avg :: "real option"

subsection \<open>\<^verbatim>\<open>compute_metrics\<close>\<close>

text \<open>The three heuristics of the loop body, on the text of one line.\<close>

definition security_hit :: "string \<Rightarrow> bool" where
  "security_hit line = (let l = lower line in str_in ''security:'' l \<or> str_in ''auth'' l)"

definition error_hit :: "string \<Rightarrow> bool" where
  "error_hit line =
     (let l = lower line
      in str_in ''error'' l \<or> str_in ''failed'' l \<or> str_in ''deny'' l \<or> str_in ''blocked'' l)"

text \<open>
  The throughput step appends to \<open>thr_vals\<close>. The search runs on \<^verbatim>\<open>line\<close>, not on the
  lower-cased \<^verbatim>\<open>l\<close>; a failing \<^verbatim>\<open>float\<close> is passed over by the bare \<^verbatim>\<open>except\<close>.
\<close>

definition thr_step :: "string \<Rightarrow> real list \<Rightarrow> real list" where
  "thr_step line thr_vals =
     (case re_search RE_THROUGHPUT line of
        None \<Rightarrow> thr_vals
      | Some m \<Rightarrow> (case py_float (group1 m) of Inr v \<Rightarrow> thr_vals @ [v] | Inl _ \<Rightarrow> thr_vals))"

text \<open>
  The loop over the lines, on the three accumulators. \<^verbatim>\<open>line.lower()\<close> exists for a
  str only; any other value raises \<^verbatim>\<open>AttributeError\<close>.
\<close>

fun metrics_loop :: "(int \<times> json) list \<Rightarrow> nat \<times> nat \<times> real list \<Rightarrow> exn + (nat \<times> nat \<times> real list)" where
  "metrics_loop [] acc = Inr acc"
| "metrics_loop ((ts, JStr line) # rest) (sec, errs, thr_vals) =
     metrics_loop rest
       (if security_hit line then sec + 1 else sec,
        if error_hit line then errs + 1 else errs,
        thr_step line thr_vals)"
| "metrics_loop ((ts, other) # rest) acc = Inl AttributeError"

definition compute_metrics :: "(int \<times> json) list \<Rightarrow> exn + metrics" where
  "compute_metrics lines =
     (case metrics_loop lines (0, 0, []) of
        Inl e \<Rightarrow> Inl e
      | Inr (sec, errs, thr_vals) \<Rightarrow>
          (let minutes = max WINDOW_MINUTES 1
           in Inr \<lparr>total = length lines,
                   log_rate = real (length lines) / real minutes,
                   security = sec,
                   sec_rate = real sec / real minutes,
                   errors = errs,
                   err_rate = real errs / real minutes,
                   thr_avg = (if thr_vals \<noteq> [] then Some (sum_list thr_vals / real (length thr_vals))
                              else None)\<rparr>))"


subsection \<open>\<^verbatim>\<open>simple_score\<close>\<close>

text \<open>
  The function keeps two local variables, \<^verbatim>\<open>score\<close> and \<^verbatim>\<open>reasons\<close>, runs four
  \<^verbatim>\<open>if\<close> statements over them in sequence and caps the score at the end. Each
  statement is a step on the pair of locals.
\<close>

type_synonym score_state = "real \<times> string list"

definition rule_log_rate :: "metrics \<Rightarrow> score_state \<Rightarrow> score_state" where
  "rule_log_rate m st =
     (case st of (score, reasons) \<Rightarrow>
        if log_rate m \<ge> 20 then (score + 0.35, reasons @ [''high_log_rate''])
        else (score, reasons))"

definition rule_sec_rate :: "metrics \<Rightarrow> score_state \<Rightarrow> score_state" where
  "rule_sec_rate m st =
     (case st of (score, reasons) \<Rightarrow>
        if sec_rate m \<ge> 5 then (score + 0.35, reasons @ [''high_security_rate''])
        else (score, reasons))"

definition rule_err_rate :: "metrics \<Rightarrow> score_state \<Rightarrow> score_state" where
  "rule_err_rate m st =
     (case st of (score, reasons) \<Rightarrow>
        if err_rate m \<ge> 2 then (score + 0.20, reasons @ [''high_error_rate''])
        else (score, reasons))"

definition low_thr :: "real option \<Rightarrow> bool" where
  "low_thr t = (case t of None \<Rightarrow> False | Some v \<Rightarrow> v < 0.25)"

definition rule_thr_avg :: "metrics \<Rightarrow> score_state \<Rightarrow> score_state" where
  "rule_thr_avg m st =
     (case st of (score, reasons) \<Rightarrow>
        if low_thr (thr_avg m) then (score + 0.30, reasons @ [''low_throughput''])
        else (score, reasons))"

definition cap_score :: "score_state \<Rightarrow> score_state" where
  "cap_score st = (case st of (score, reasons) \<Rightarrow> (if score > 1.0 then 1.0 else score, reasons))"

definition simple_score :: "metrics \<Rightarrow> real \<times> string list" where
  "simple_score m =
     cap_score (rule_thr_avg m (rule_err_rate m (rule_sec_rate m (rule_log_rate m (0.0, [])))))"

subsection \<open>The scoring rules as the specification words them\<close>

text \<open>
  The specification describes the scorer as an ordered list of four rules, each a
  condition, a weight and a tag; the score is the sum of the weights of the rules whose
  condition holds, capped at 1, and the reasons are their tags in list order.
\<close>

type_synonym rule = "(metrics \<Rightarrow> bool) \<times> real \<times> string"

definition spec_rules :: "rule list" where
  "spec_rules =
     [(\<lambda>m. log_rate m \<ge> 20, 0.35, ''high_log_rate''),
      (\<lambda>m. sec_rate m \<ge> 5, 0.35, ''high_security_rate''),
      (\<lambda>m. err_rate m \<ge> 2, 0.20, ''high_error_rate''),
      (\<lambda>m. thr_avg m \<noteq> None \<and> the (thr_avg m) < 0.25, 0.30, ''low_throughput'')]"

definition spec_fired :: "metrics \<Rightarrow> rule list" where
  "spec_fired m = filter (\<lambda>r. fst r m) spec_rules"

definition spec_score :: "metrics \<Rightarrow> real \<times> string list" where
  "spec_score m =
     (min 1 (sum_list (map (\<lambda>r. fst (snd r)) (spec_fired m))),
      map (\<lambda>r. snd (snd r)) (spec_fired m))"

subsection \<open>\<^verbatim>\<open>send_syslog\<close> and the loop of \<^verbatim>\<open>main\<close>\<close>

text \<open>
  What one iteration does to the outside world is a list of events. The two message
  f-strings are kept as their fields, in order, instead of formatted text: formatting a
  float and the text of an exception are not modelled. \<open>Engine_error e\<close> stands for the
  text \<^verbatim>\<open>ai_engine_error\<close> followed by \<^verbatim>\<open>str(e)\<close>.
\<close>

definition POLL_SECONDS :: nat where
  "POLL_SECONDS = 60"

datatype field =
  Txt string | Num real | Cnt nat | Opt_num "real option" | Tags "string list"
  | Engine_error exn

type_synonym message = "(string \<times> field) list"

datatype event =
  Printed_status metrics real "string list"
  | Printed_sent message
  | Printed_error exn
  | Datagram message
  | Socket_closed
  | Sleep nat

text \<open>A computation with effects gives its events and, when it raises, the exception.\<close>

type_synonym outcome = "event list \<times> exn option"

text \<open>
  \<^verbatim>\<open>send_syslog\<close> sends one datagram inside \<^verbatim>\<open>try\<close> ... \<^verbatim>\<open>finally\<close>: the socket is
  closed either way, and there is no \<^verbatim>\<open>except\<close> clause, so what \<^verbatim>\<open>sendto\<close> raises
  leaves the function. The first argument is what the operating system does with the
  send: \<open>None\<close> when it goes through, \<open>Some e\<close> when it raises \<open>e\<close>. (The datagram's prefix
  of clock time, host and tag is left out.)
\<close>

definition send_syslog :: "exn option \<Rightarrow> message \<Rightarrow> outcome" where
  "send_syslog sendto message =
     (case sendto of
        None \<Rightarrow> ([Datagram message, Socket_closed], None)
      | Some e \<Rightarrow> ([Socket_closed], Some e))"

definition alert_message :: "real \<Rightarrow> metrics \<Rightarrow> string list \<Rightarrow> message" where
  "alert_message score m reasons =
     [(''severity'', Txt ''high''), (''score'', Num score), (''window'', Cnt WINDOW_MINUTES),
      (''total'', Cnt (total m)), (''sec'', Cnt (security m)), (''errors'', Cnt (errors m)),
      (''thr_avg'', Opt_num (thr_avg m)), (''reason'', Tags reasons)]"

definition error_message :: "exn \<Rightarrow> message" where
  "error_message e =
     [(''severity'', Txt ''medium''), (''score'', Txt ''0.50''), (''reason'', Engine_error e)]"

text \<open>
  What the world does during one iteration: the result of the backend query
  (\<^verbatim>\<open>loki_query_range\<close> returns the decoded body or raises), and the fate of the send of
  the threshold alert and of the send of the error alert, should the iteration come to
  them.
\<close>

record cycle_env =
  fetch :: "exn + json"
  send_alert :: "exn option"
  send_error :: "exn option"

text \<open>The body of the \<^verbatim>\<open>try\<close> block, for an alert threshold \<open>thr\<close>.\<close>

definition try_body :: "real \<Rightarrow> cycle_env \<Rightarrow> outcome" where
  "try_body thr env =
     (case fetch env of
        Inl e \<Rightarrow> ([], Some e)
      | Inr data \<Rightarrow>
          (case extract_lines data of
             Inl e \<Rightarrow> ([], Some e)
           | Inr lines \<Rightarrow>
               (case compute_metrics lines of
                  Inl e \<Rightarrow> ([], Some e)
                | Inr m \<Rightarrow>
                    (case simple_score m of
                       (score, reasons) \<Rightarrow>
                         if score \<ge> thr
                         then (case send_syslog (send_alert env) (alert_message score m reasons) of
                                 (evs, Some e) \<Rightarrow> (Printed_status m score reasons # evs, Some e)
                               | (evs, None) \<Rightarrow>
                                   (Printed_status m score reasons # evs @
                                    [Printed_sent (alert_message score m reasons)], None))
                         else ([Printed_status m score reasons], None)))))"

text \<open>
  One iteration of \<^verbatim>\<open>while True\<close>: the \<^verbatim>\<open>try\<close> block, the handler for what derives
  from \<^verbatim>\<open>Exception\<close>, then the sleep. The handler's own \<^verbatim>\<open>send_syslog\<close> stands in no
  \<^verbatim>\<open>try\<close>. An exception in the second component has left the loop.
\<close>

definition cycle :: "real \<Rightarrow> cycle_env \<Rightarrow> outcome" where
  "cycle thr env =
     (case try_body thr env of
        (evs, None) \<Rightarrow> (evs @ [Sleep POLL_SECONDS], None)
      | (evs, Some e) \<Rightarrow>
          if is_Exception e
          then (case send_syslog (send_error env) (error_message e) of
                  (evs', None) \<Rightarrow> (evs @ Printed_error e # evs' @ [Sleep POLL_SECONDS], None)
                | (evs', Some e') \<Rightarrow> (evs @ Printed_error e # evs', Some e'))
          else (evs, Some e))"



subsection \<open>Inputs used in the examples\<close>

definition quiet_metrics :: metrics where
  "quiet_metrics =
     \<lparr>total = 0, log_rate = 0, security = 0, sec_rate = 0, errors = 0, err_rate = 0,
      thr_avg = None\<rparr>"

text \<open>A response with one stream holding the given entries.\<close>

definition response :: "json list \<Rightarrow> json" where
  "response entries =
     JDict [(''status'', JStr ''success''),
            (''data'', JDict [(''result'', JList [JDict [(''values'', JList entries)]])])]"

definition slow_line :: json where
  "slow_line = JList [JStr ''1700000000000000000'', JStr ''olt1 Throughput=0.10 Mbps'']"

definition slow_lines :: "(int \<times> json) list" where
  "slow_lines = [(1700000000000000000, JStr ''olt1 Throughput=0.10 Mbps'')]"

definition slow_metrics :: metrics where
  "slow_metrics =
     \<lparr>total = 1, log_rate = 1 / 5, security = 0, sec_rate = 0, errors = 0, err_rate = 0,
      thr_avg = Some (1 / 10)\<rparr>"



text \<open>An iteration that sees one line of low throughput; the two sends fare as given.\<close>

definition slow_env :: "exn option \<Rightarrow> exn option \<Rightarrow> cycle_env" where
  "slow_env a s = \<lparr>fetch = Inr (response [slow_line]), send_alert = a, send_error = s\<rparr>"

section \<open>Properties of the scoring function\<close>

lemmas score_defs =
  simple_score_def cap_score_def rule_thr_avg_def rule_err_rate_def rule_sec_rate_def
  rule_log_rate_def

lemma simple_score_cases:
  "simple_score m =
     (min 1 ((if log_rate m \<ge> 20 then 0.35 else 0) + (if sec_rate m \<ge> 5 then 0.35 else 0) +
             (if err_rate m \<ge> 2 then 0.20 else 0) + (if low_thr (thr_avg m) then 0.30 else 0)),
      (if log_rate m \<ge> 20 then [''high_log_rate''] else []) @
      (if sec_rate m \<ge> 5 then [''high_security_rate''] else []) @
      (if err_rate m \<ge> 2 then [''high_error_rate''] else []) @
      (if low_thr (thr_avg m) then [''low_throughput''] else []))"
  by (simp add: score_defs min_def)

lemma fst_simple_score:
  "fst (simple_score m) =
     min 1 ((if log_rate m \<ge> 20 then 0.35 else 0) + (if sec_rate m \<ge> 5 then 0.35 else 0) +
            (if err_rate m \<ge> 2 then 0.20 else 0) + (if low_thr (thr_avg m) then 0.30 else 0))"
  by (simp add: simple_score_cases)

lemma snd_simple_score:
  "snd (simple_score m) =
     (if log_rate m \<ge> 20 then [''high_log_rate''] else []) @
     (if sec_rate m \<ge> 5 then [''high_security_rate''] else []) @
     (if err_rate m \<ge> 2 then [''high_error_rate''] else []) @
     (if low_thr (thr_avg m) then [''low_throughput''] else [])"
  by (simp add: simple_score_cases)

text \<open>
  Claim C1. For every metrics dictionary, \<^verbatim>\<open>simple_score\<close> computes what the ordered rule
  list of the specification computes: the four rules (log rate at least 20 adds 0.35 and
  tags \<^verbatim>\<open>high_log_rate\<close>; security rate at least 5 adds 0.35 and tags
  \<^verbatim>\<open>high_security_rate\<close>; error rate at least 2 adds 0.20 and tags \<^verbatim>\<open>high_error_rate\<close>;
  a throughput average that is present and below 0.25 adds 0.30 and tags
  \<^verbatim>\<open>low_throughput\<close>) are evaluated independently, the score is the sum of the weights
  of the rules that fired, capped at 1, and the reasons are exactly the tags of the rules
  that fired, in rule order.
\<close>

theorem simple_score_is_rule_list:
  "simple_score m = spec_score m"
proof (cases "thr_avg m")
  case None
  then show ?thesis
    by (simp add: simple_score_cases spec_score_def spec_fired_def spec_rules_def low_thr_def
        min_def)
next
  case (Some v)
  then show ?thesis
    by (simp add: simple_score_cases spec_score_def spec_fired_def spec_rules_def low_thr_def
        min_def)
qed

text \<open>
  Claim C2. For every metrics dictionary, whatever its rates and whether or not a
  throughput average is present, the score lies in the closed interval from 0 to 1.
\<close>

theorem simple_score_in_unit_interval:
  "0 \<le> fst (simple_score m) \<and> fst (simple_score m) \<le> 1"
  by (simp add: fst_simple_score min_def)

text \<open>
  Claim C6. The score does not decrease when one of \<^verbatim>\<open>log_rate\<close>, \<^verbatim>\<open>sec_rate\<close>,
  \<^verbatim>\<open>err_rate\<close> grows and the other fields stay fixed, and it does not increase when the
  throughput average grows and the other fields stay fixed; the last holds for all
  throughput values, so in particular for those below the cutoff 0.25.
\<close>

theorem simple_score_monotone:
  "(a \<le> b \<longrightarrow> fst (simple_score (m\<lparr>log_rate := a\<rparr>)) \<le> fst (simple_score (m\<lparr>log_rate := b\<rparr>))) \<and>
   (a \<le> b \<longrightarrow> fst (simple_score (m\<lparr>sec_rate := a\<rparr>)) \<le> fst (simple_score (m\<lparr>sec_rate := b\<rparr>))) \<and>
   (a \<le> b \<longrightarrow> fst (simple_score (m\<lparr>err_rate := a\<rparr>)) \<le> fst (simple_score (m\<lparr>err_rate := b\<rparr>))) \<and>
   (a \<le> b \<longrightarrow>
      fst (simple_score (m\<lparr>thr_avg := Some b\<rparr>)) \<le> fst (simple_score (m\<lparr>thr_avg := Some a\<rparr>)))"
proof (intro conjI impI)
  assume "a \<le> b"
  then show "fst (simple_score (m\<lparr>log_rate := a\<rparr>)) \<le> fst (simple_score (m\<lparr>log_rate := b\<rparr>))"
    by (simp add: fst_simple_score min_def)
next
  assume "a \<le> b"
  then show "fst (simple_score (m\<lparr>sec_rate := a\<rparr>)) \<le> fst (simple_score (m\<lparr>sec_rate := b\<rparr>))"
    by (simp add: fst_simple_score min_def)
next
  assume "a \<le> b"
  then show "fst (simple_score (m\<lparr>err_rate := a\<rparr>)) \<le> fst (simple_score (m\<lparr>err_rate := b\<rparr>))"
    by (simp add: fst_simple_score min_def)
next
  assume "a \<le> b"
  then show "fst (simple_score (m\<lparr>thr_avg := Some b\<rparr>)) \<le> fst (simple_score (m\<lparr>thr_avg := Some a\<rparr>))"
    by (simp add: fst_simple_score low_thr_def min_def)
qed

theorem simple_score_monotone_witness:
  "(19::real) \<le> 20 \<and>
   fst (simple_score (quiet_metrics\<lparr>log_rate := 19\<rparr>)) = 0 \<and>
   fst (simple_score (quiet_metrics\<lparr>log_rate := 20\<rparr>)) = 0.35 \<and>
   fst (simple_score (quiet_metrics\<lparr>thr_avg := Some 20\<rparr>)) \<le>
     fst (simple_score (quiet_metrics\<lparr>thr_avg := Some 19\<rparr>))"
  using simple_score_monotone [of 19 20 quiet_metrics]
  by (simp add: fst_simple_score quiet_metrics_def low_thr_def)

text \<open>
  Claim C7. The reasons list is non-empty whenever the score is greater than 0; and when
  none of the four rule conditions holds, the score is exactly 0 and the reasons list is
  empty.
\<close>

theorem simple_score_reasons:
  "(0 < fst (simple_score m) \<longrightarrow> snd (simple_score m) \<noteq> []) \<and>
   (\<not> log_rate m \<ge> 20 \<and> \<not> sec_rate m \<ge> 5 \<and> \<not> err_rate m \<ge> 2 \<and>
    \<not> (thr_avg m \<noteq> None \<and> the (thr_avg m) < 0.25) \<longrightarrow> simple_score m = (0, []))"
proof (intro conjI impI)
  assume "0 < fst (simple_score m)"
  then show "snd (simple_score m) \<noteq> []"
    by (simp add: fst_simple_score snd_simple_score split: if_splits)
next
  assume "\<not> log_rate m \<ge> 20 \<and> \<not> sec_rate m \<ge> 5 \<and> \<not> err_rate m \<ge> 2 \<and>
    \<not> (thr_avg m \<noteq> None \<and> the (thr_avg m) < 0.25)"
  then show "simple_score m = (0, [])"
    by (cases "thr_avg m") (simp_all add: simple_score_cases low_thr_def)
qed

theorem simple_score_reasons_witness:
  "0 < fst (simple_score (quiet_metrics\<lparr>err_rate := 2\<rparr>)) \<and>
   snd (simple_score (quiet_metrics\<lparr>err_rate := 2\<rparr>)) = [''high_error_rate''] \<and>
   \<not> log_rate quiet_metrics \<ge> 20 \<and> \<not> sec_rate quiet_metrics \<ge> 5 \<and>
   \<not> err_rate quiet_metrics \<ge> 2 \<and> thr_avg quiet_metrics = None \<and>
   simple_score quiet_metrics = (0, [])"
  using simple_score_reasons [of "quiet_metrics\<lparr>err_rate := 2\<rparr>"]
    simple_score_reasons [of quiet_metrics]
  by (simp add: fst_simple_score snd_simple_score quiet_metrics_def low_thr_def)

section \<open>Evaluating the examples\<close>

lemmas extract_defs =
  extract_lines_def dict_get_def py_iter_def unpack2_def py_int_def py_int_str_def strip_def
  is_space_def MAX_STR_DIGITS_def is_digit_def dec_val_def digit_val_def response_def slow_line_def

lemmas metrics_defs =
  compute_metrics_def security_hit_def error_hit_def thr_step_def RE_THROUGHPUT_def
  re_literal_def re_number_def group1_def py_float_def is_decimal_def decimal_value_def lower_def lower_char_def is_digit_def
  dec_val_def digit_val_def WINDOW_MINUTES_def

lemma extract_slow: "extract_lines (response [slow_line]) = Inr slow_lines"
  by (simp add: extract_defs slow_lines_def)

lemma metrics_slow: "compute_metrics slow_lines = Inr slow_metrics"
  by (simp add: metrics_defs slow_lines_def slow_metrics_def)

lemma score_slow: "simple_score slow_metrics = (0.30, [''low_throughput''])"
  by (simp add: simple_score_cases slow_metrics_def low_thr_def)




section \<open>Properties of one iteration and of the loop\<close>


lemma try_body_scored:
  assumes "fetch env = Inr data" "extract_lines data = Inr lines" "compute_metrics lines = Inr m"
    and "simple_score m = (score, reasons)"
  shows "try_body thr env =
     (if score \<ge> thr
      then (case send_alert env of
              None \<Rightarrow>
                ([Printed_status m score reasons, Datagram (alert_message score m reasons),
                  Socket_closed, Printed_sent (alert_message score m reasons)], None)
            | Some e \<Rightarrow> ([Printed_status m score reasons, Socket_closed], Some e))
      else ([Printed_status m score reasons], None))"
  using assms by (simp add: try_body_def send_syslog_def split: option.split)









text \<open>
  Claim C5. In an iteration where nothing raises, an alert datagram is emitted if and only
  if the score is at least the threshold, and the status line is printed either way. With
  the threshold 0.10 every non-zero score leads to an alert, every non-zero score being at
  least 0.10; with the threshold 1.01 no alert is emitted, whatever the score.
\<close>

theorem alert_iff_threshold:
  assumes "fetch env = Inr data" "extract_lines data = Inr lines" "compute_metrics lines = Inr m"
    and "send_alert env = None"
  shows "snd (cycle thr env) = None \<and>
         ((\<exists>msg. Datagram msg \<in> set (fst (cycle thr env))) \<longleftrightarrow> fst (simple_score m) \<ge> thr) \<and>
         Printed_status m (fst (simple_score m)) (snd (simple_score m)) \<in> set (fst (cycle thr env)) \<and>
         (fst (simple_score m) \<noteq> 0 \<longrightarrow>
            fst (simple_score m) \<ge> 0.10 \<and> (\<exists>msg. Datagram msg \<in> set (fst (cycle 0.10 env)))) \<and>
         \<not> (\<exists>msg. Datagram msg \<in> set (fst (cycle 1.01 env)))"
proof -
  obtain score reasons where sc: "simple_score m = (score, reasons)"
    by (cases "simple_score m")
  have cyc: "cycle t env =
      (if score \<ge> t
       then [Printed_status m score reasons, Datagram (alert_message score m reasons),
             Socket_closed, Printed_sent (alert_message score m reasons), Sleep POLL_SECONDS]
       else [Printed_status m score reasons, Sleep POLL_SECONDS], None)" for t
    using try_body_scored [OF assms(1-3) sc, of t] assms(4) by (simp add: cycle_def)
  have le1: "score \<le> 1"
    using sc fst_simple_score [of m] by (simp add: min_def split: if_splits)
  have low: "score \<noteq> 0 \<longrightarrow> score \<ge> 0.10"
    using sc fst_simple_score [of m] by (simp add: min_def split: if_splits)
  from cyc [of thr] cyc [of "0.10"] cyc [of "1.01"] le1 low show ?thesis
    by (simp add: sc)
qed

theorem alert_iff_threshold_witness:
  "fetch (slow_env None None) = Inr (response [slow_line]) \<and>
   extract_lines (response [slow_line]) = Inr slow_lines \<and>
   compute_metrics slow_lines = Inr slow_metrics \<and>
   send_alert (slow_env None None) = None \<and>
   fst (simple_score slow_metrics) \<noteq> 0 \<and>
   snd (cycle SCORE_THRESHOLD (slow_env None None)) = None \<and>
   (\<exists>msg. Datagram msg \<in> set (fst (cycle 0.10 (slow_env None None)))) \<and>
   \<not> (\<exists>msg. Datagram msg \<in> set (fst (cycle 1.01 (slow_env None None))))"
proof -
  have hyps: "fetch (slow_env None None) = Inr (response [slow_line])"
    "send_alert (slow_env None None) = None"
    by (simp_all add: slow_env_def)
  have nz: "fst (simple_score slow_metrics) \<noteq> 0"
    by (simp add: score_slow)
  show ?thesis
    using alert_iff_threshold [OF hyps(1) extract_slow metrics_slow hyps(2), of SCORE_THRESHOLD]
      hyps extract_slow metrics_slow nz
    by simp
qed

section \<open>Properties of the extraction\<close>




section \<open>Properties of the throughput pattern\<close>















section \<open>Properties of the metrics\<close>









end
